theory Spec2Isabelle
  imports Complex_Main "HOL-Library.Word"
begin

unbundle bit_operations_syntax

section \<open>Values\<close>

text \<open>
  A Buffer or Uint8Array element is a byte. JavaScript numbers that the code only uses as
  integers (the packed status word, indices, counts, shifts and masks) are \<open>int\<close>; the
  32-bit conversions of the bitwise operators are written out where a value can leave the
  32-bit range.
\<close>

type_synonym u8 = "8 word"

text \<open>
  The exceptions the code can raise: the two \<open>throw new Error\<close> of the decoder class
  (not initialised, engine initialisation failed), the one of \<open>_extractASC\<close>, a rejected
  \<open>ready\<close> promise (the engine module could not be loaded), and the RangeError of the
  runtime when a typed-array view or a Buffer read leaves its buffer.
\<close>

datatype error = NotInitialized | ExtractFailed | InitFailed | LoadFailed | RangeError

text \<open>
  A Float32 sample as JavaScript reads it from a Float32Array: a finite value, one of the
  two infinities, or NaN.
\<close>

datatype sample = F32 real | F32_PInf | F32_NInf | F32_NaN

text \<open>
  The result of the division \<open>samples / numChannels\<close> of two non-negative integers below
  \<open>2 ^ 24\<close>: an integer when the divisor divides the dividend, the double nearest to the
  fraction otherwise (\<open>Inexact s c\<close>, kept symbolic), \<open>Infinity\<close> for a positive number
  over zero and \<open>NaN\<close> for zero over zero.
\<close>

datatype jsnum = Whole nat | Inexact nat nat | Infinity | NotANumber

definition js_div :: "int \<Rightarrow> int \<Rightarrow> jsnum" where
  "js_div s c =
     (if c = 0 then (if s = 0 then NotANumber else Infinity)
      else if s mod c = 0 then Whole (nat (s div c))
      else Inexact (nat s) (nat c))"

section \<open>The engine module\<close>

text \<open>
  Modelled from the spec: the allocator of the engine module (\<open>_malloc\<close> and \<open>_free\<close> of
  faad2_wasm.mjs, which is not part of the sources), as the allocation-counting substitute
  of the spec's testable properties: the module keeps the pointers handed out and not yet
  released, \<open>_malloc\<close> returns a fresh pointer and \<open>_free\<close> drops the pointer it is given.
\<close>

record wasm_module =
  live :: "nat list"
  next_ptr :: nat

definition malloc :: "wasm_module \<Rightarrow> nat \<Rightarrow> nat \<times> wasm_module" where
  "malloc m n = (next_ptr m, m\<lparr>live := next_ptr m # live m, next_ptr := next_ptr m + max 1 n\<rparr>)"

definition free :: "wasm_module \<Rightarrow> nat \<Rightarrow> wasm_module" where
  "free m p = m\<lparr>live := remove1 p (live m)\<rparr>"

text \<open>
  The engine's entry points are not specified: each call of the decoder takes the engine's
  answer to this call as an argument, a function of what the call hands over, so that a
  statement for every answer covers every engine, stateful or not.
  \<^item> \<open>_init_decoder(ascPtr, length)\<close>: from the bytes at \<open>ascPtr\<close> and the length to the
    result code;
  \<^item> \<open>_decode_frame(inPtr, length, outPtr, outputSize)\<close>: from the bytes of the input
    region, the frame length and the output capacity to the packed status word and the
    Float32 elements that the module memory holds from \<open>outPtr\<close> to its end after the call.
  Every engine call returns in this model: a call that traps inside the engine raises
  before \<open>decode\<close> has released anything, and is no branch of the model.
\<close>

type_synonym init_call = "u8 list \<Rightarrow> nat \<Rightarrow> int"
type_synonym decode_call = "u8 list \<Rightarrow> nat \<Rightarrow> nat \<Rightarrow> int \<times> sample list"

section \<open>FAAD2NodeDecoder\<close>

definition SAMPLE_RATE :: "int \<rightharpoonup> int" where
  "SAMPLE_RATE =
     [1 \<mapsto> 8000, 2 \<mapsto> 16000, 3 \<mapsto> 22050, 4 \<mapsto> 32000, 5 \<mapsto> 44100,
      6 \<mapsto> 48000, 7 \<mapsto> 64000, 8 \<mapsto> 88200, 9 \<mapsto> 96000]"

text \<open>The decoder object: \<open>module\<close> is \<open>None\<close> while the engine module is not loaded.\<close>

record decoder =
  module :: "wasm_module option"
  initialized :: bool
  st_sampleRate :: int
  st_channels :: int

record pcm_result =
  pcm :: "sample list"
  sampleRate :: int
  channels :: int
  samplesPerChannel :: jsnum

text \<open>\<open>aacData[i]\<close> as a number; the callers check the length first.\<close>

definition byte_at :: "u8 list \<Rightarrow> nat \<Rightarrow> int" where
  "byte_at data i = uint (data ! i)"

definition syncword_at :: "u8 list \<Rightarrow> nat \<Rightarrow> int" where
  "syncword_at data off = push_bit 4 (byte_at data off) OR drop_bit 4 (byte_at data (off + 1))"

definition stripADTS :: "u8 list \<Rightarrow> u8 list" where
  "stripADTS aacData =
     (if 7 \<le> length aacData \<and> syncword_at aacData 0 = 0xFFF then
        (let protectionAbsent = byte_at aacData 1 AND 0x01;
             headerSize = (if protectionAbsent \<noteq> 0 then 7 else 9)
         in drop headerSize aacData)
      else aacData)"

text \<open>
  \<open>decode\<close>. The bitwise operators read the packed word through its 32-bit conversion
  (\<open>take_bit 32\<close>). The view \<open>new Float32Array(buffer, outPtr, samples)\<close> raises a
  RangeError when it would reach past the end of the module memory; the statements after
  it, the release of the output region among them, are then not reached.
\<close>

definition decode ::
  "decoder \<Rightarrow> u8 list \<Rightarrow> decode_call \<Rightarrow> (error + pcm_result option) \<times> decoder" where
  "decode d frameData decode_frame =
     (case module d of
        None \<Rightarrow> (Inl NotInitialized, d)
      | Some m \<Rightarrow>
          if \<not> initialized d then (Inl NotInitialized, d)
          else
            let rawAAC = stripADTS frameData;
                inputLength = length rawAAC;
                pad = 64;
                (inPtr, m1) = malloc m (inputLength + pad);
                maxFrames = 2048 * 2;
                maxChannels = 2;
                maxSamples = maxFrames * maxChannels;
                outputSize = maxSamples * 4;
                (outPtr, m2) = malloc m1 outputSize;
                (packed, mem) = decode_frame (rawAAC @ replicate pad 0) (length rawAAC) outputSize;
                m3 = free m2 inPtr
            in if packed \<le> 0 then (Inr None, d\<lparr>module := Some (free m3 outPtr)\<rparr>)
               else
                 let samplerateIndex = drop_bit 28 (take_bit 32 packed) AND 0xf;
                     numChannels = drop_bit 24 (take_bit 32 packed) AND 0xf;
                     samples = take_bit 32 packed AND 0xffffff;
                     samplerate = (case SAMPLE_RATE samplerateIndex of Some r \<Rightarrow> r | None \<Rightarrow> 0);
                     d1 = d\<lparr>module := Some m3, st_sampleRate := samplerate,
                            st_channels := numChannels\<rparr>;
                     numFrames = js_div samples numChannels
                 in if length mem < nat samples then (Inl RangeError, d1)
                    else
                      (Inr (Some \<lparr>pcm = take (nat samples) mem, sampleRate = samplerate,
                                  channels = numChannels, samplesPerChannel = numFrames\<rparr>),
                       d1\<lparr>module := Some (free m3 outPtr)\<rparr>))"

text \<open>
  \<open>decodeInt16\<close>. \<open>Math.min\<close> and \<open>Math.max\<close> return NaN for a NaN argument. The clamped
  value lies in \<open>[-1, 1]\<close>; its product with 32767 is computed in double precision, where a
  Float32 value times a 15-bit integer is exact, so the product is the real one. The store
  into the Int16Array truncates towards zero and keeps the low 16 bits as a signed value
  (NaN and the infinities become 0).
\<close>

definition Math_min1 :: "sample \<Rightarrow> sample" where
  "Math_min1 x =
     (case x of F32 r \<Rightarrow> F32 (min 1 r) | F32_PInf \<Rightarrow> F32 1 | F32_NInf \<Rightarrow> F32_NInf
      | F32_NaN \<Rightarrow> F32_NaN)"

definition Math_max_neg1 :: "sample \<Rightarrow> sample" where
  "Math_max_neg1 x =
     (case x of F32 r \<Rightarrow> F32 (max (- 1) r) | F32_PInf \<Rightarrow> F32_PInf | F32_NInf \<Rightarrow> F32 (- 1)
      | F32_NaN \<Rightarrow> F32_NaN)"

definition times_32767 :: "sample \<Rightarrow> sample" where
  "times_32767 x =
     (case x of F32 r \<Rightarrow> F32 (r * 32767) | F32_PInf \<Rightarrow> F32_PInf | F32_NInf \<Rightarrow> F32_NInf
      | F32_NaN \<Rightarrow> F32_NaN)"

definition trunc_real :: "real \<Rightarrow> int" where
  "trunc_real r = (if 0 \<le> r then \<lfloor>r\<rfloor> else \<lceil>r\<rceil>)"

definition to_int16 :: "sample \<Rightarrow> int" where
  "to_int16 x = (case x of F32 r \<Rightarrow> signed_take_bit 15 (trunc_real r) | _ \<Rightarrow> 0)"

record int16_result =
  pcm16 :: "int list"
  sampleRate16 :: int
  channels16 :: int
  samplesPerChannel16 :: jsnum

definition decodeInt16 ::
  "decoder \<Rightarrow> u8 list \<Rightarrow> decode_call \<Rightarrow> (error + int16_result option) \<times> decoder" where
  "decodeInt16 d frameData decode_frame =
     (case decode d frameData decode_frame of
        (Inl e, d') \<Rightarrow> (Inl e, d')
      | (Inr None, d') \<Rightarrow> (Inr None, d')
      | (Inr (Some result), d') \<Rightarrow>
          (Inr (Some \<lparr>pcm16 = map (\<lambda>x. to_int16 (times_32767 (Math_max_neg1 (Math_min1 x))))
                                 (pcm result),
                      sampleRate16 = sampleRate result,
                      channels16 = channels result,
                      samplesPerChannel16 = samplesPerChannel result\<rparr>), d'))"

text \<open>
  \<open>decodePlanar\<close>. \<open>new Float32Array(n)\<close> takes the integer part of \<open>n\<close> as its length, is
  zero-filled, and raises a RangeError for \<open>Infinity\<close>. The loop \<open>for (i = 0; i < n; i++)\<close>
  visits every index below \<open>n\<close>, for a fraction also its integer part. A store past the end
  of a typed array is ignored; a read past the end gives \<open>undefined\<close>, stored as NaN.
\<close>

definition new_Float32Array :: "jsnum \<Rightarrow> error + sample list" where
  "new_Float32Array n =
     (case n of Whole k \<Rightarrow> Inr (replicate k (F32 0))
      | Inexact s c \<Rightarrow> Inr (replicate (s div c) (F32 0))
      | NotANumber \<Rightarrow> Inr []
      | Infinity \<Rightarrow> Inl RangeError)"

text \<open>The indices of the loop; with \<open>Infinity\<close> the allocation before the loop has raised.\<close>

definition loop_indices :: "jsnum \<Rightarrow> nat list" where
  "loop_indices n =
     (case n of Whole k \<Rightarrow> [0..<k]
      | Inexact s c \<Rightarrow> [0..<s div c + 1]
      | NotANumber \<Rightarrow> []
      | Infinity \<Rightarrow> [])"

definition load :: "sample list \<Rightarrow> nat \<Rightarrow> sample" where
  "load a i = (if i < length a then a ! i else F32_NaN)"

definition store :: "sample list \<Rightarrow> nat \<Rightarrow> sample \<Rightarrow> sample list" where
  "store a i v = (if i < length a then a[i := v] else a)"

definition channel_samples :: "sample list \<Rightarrow> nat \<Rightarrow> jsnum \<Rightarrow> nat \<Rightarrow> error + sample list" where
  "channel_samples p c n ch =
     (case new_Float32Array n of
        Inl e \<Rightarrow> Inl e
      | Inr channelSamples \<Rightarrow>
          Inr (fold (\<lambda>i a. store a i (load p (i * c + ch))) (loop_indices n) channelSamples))"

fun planar_loop :: "sample list \<Rightarrow> nat \<Rightarrow> jsnum \<Rightarrow> nat list \<Rightarrow> error + sample list list" where
  "planar_loop p c n [] = Inr []"
| "planar_loop p c n (ch # chs) =
     (case channel_samples p c n ch of
        Inl e \<Rightarrow> Inl e
      | Inr channelSamples \<Rightarrow>
          (case planar_loop p c n chs of
             Inl e \<Rightarrow> Inl e
           | Inr rest \<Rightarrow> Inr (channelSamples # rest)))"

record planar_result =
  channelData :: "sample list list"
  sampleRateP :: int
  channelsP :: int

definition decodePlanar ::
  "decoder \<Rightarrow> u8 list \<Rightarrow> decode_call \<Rightarrow> (error + planar_result option) \<times> decoder" where
  "decodePlanar d frameData decode_frame =
     (case decode d frameData decode_frame of
        (Inl e, d') \<Rightarrow> (Inl e, d')
      | (Inr None, d') \<Rightarrow> (Inr None, d')
      | (Inr (Some result), d') \<Rightarrow>
          (case planar_loop (pcm result) (nat (channels result)) (samplesPerChannel result)
                  [0..<nat (channels result)] of
             Inl e \<Rightarrow> (Inl e, d')
           | Inr cd \<Rightarrow>
               (Inr (Some \<lparr>channelData = cd, sampleRateP = sampleRate result,
                           channelsP = channels result\<rparr>), d')))"

text \<open>\<open>_extractASC\<close> and \<open>configure\<close>. A value stored into a Buffer keeps its low 8 bits.\<close>

definition extractASC :: "u8 list \<Rightarrow> error + u8 list" where
  "extractASC aacData =
     (if 7 \<le> length aacData \<and> syncword_at aacData 0 = 0xFFF then
        (let profile = (drop_bit 6 (byte_at aacData 2) AND 0x03) + 1;
             sampleRateIndex = drop_bit 2 (byte_at aacData 2) AND 0x0F;
             channelConfig = push_bit 2 (byte_at aacData 2 AND 0x01)
                               OR (drop_bit 6 (byte_at aacData 3) AND 0x03)
         in Inr [word_of_int (push_bit 3 profile OR drop_bit 1 sampleRateIndex),
                 word_of_int (push_bit 7 (sampleRateIndex AND 0x01) OR push_bit 3 channelConfig)])
      else if 2 \<le> length aacData then Inr (take 2 aacData)
      else Inl ExtractFailed)"

definition configure ::
  "decoder \<Rightarrow> u8 list \<Rightarrow> bool \<Rightarrow> init_call \<Rightarrow> (error + unit) \<times> decoder" where
  "configure d ascOrFirstFrame autoDetect init_decoder =
     (case module d of
        None \<Rightarrow> (Inl LoadFailed, d)
      | Some m \<Rightarrow>
          (case (if autoDetect \<and> 2 < length ascOrFirstFrame then extractASC ascOrFirstFrame
                 else Inr ascOrFirstFrame) of
             Inl e \<Rightarrow> (Inl e, d)
           | Inr asc \<Rightarrow>
               let (ascPtr, m1) = malloc m (length asc);
                   result = init_decoder asc (length asc);
                   m2 = free m1 ascPtr
               in if result < 0 then (Inl InitFailed, d\<lparr>module := Some m2\<rparr>)
                  else (Inr (), d\<lparr>module := Some m2, initialized := True\<rparr>)))"

section \<open>parseADTS\<close>

text \<open>The header record of \<open>parseADTS\<close> (lab/test_heaac_v2.js); \<open>None\<close> is its \<open>null\<close>.\<close>

record adts_header =
  syncword :: int
  profile :: int
  profileName :: string
  sampleRateIndex :: int
  adts_sampleRate :: "int option"
  channelConfig :: int
  adts_channels :: int
  frameLength :: int
  headerSize :: int
  protectionAbsent :: int
  dataLength :: int

definition sampleRates :: "int list" where
  "sampleRates =
     [96000, 88200, 64000, 48000, 44100, 32000, 24000, 22050, 16000, 12000, 11025, 8000, 7350]"

definition profiles :: "string list" where
  "profiles = ['''', ''AAC Main'', ''AAC LC'', ''AAC SSR'', ''AAC LTP'', ''HE-AAC'', ''HE-AAC v2'']"

fun decimal :: "nat \<Rightarrow> string" where
  "decimal n =
     (if n < 10 then [char_of (48 + n)] else decimal (n div 10) @ [char_of (48 + n mod 10)])"

text \<open>An array element, \<open>undefined\<close> past the end.\<close>

definition element :: "'a list \<Rightarrow> int \<Rightarrow> 'a option" where
  "element xs i = (if 0 \<le> i \<and> nat i < length xs then Some (xs ! nat i) else None)"

definition parseADTS :: "u8 list \<Rightarrow> nat \<Rightarrow> adts_header option" where
  "parseADTS data offset =
     (if length data < offset + 7 then None
      else if syncword_at data offset \<noteq> 0xFFF then None
      else
        let protectionAbsent = byte_at data (offset + 1) AND 0x01;
            profile = (drop_bit 6 (byte_at data (offset + 2)) AND 0x03) + 1;
            sampleRateIndex = drop_bit 2 (byte_at data (offset + 2)) AND 0x0F;
            channelConfig = push_bit 2 (byte_at data (offset + 2) AND 0x01)
                              OR (drop_bit 6 (byte_at data (offset + 3)) AND 0x03);
            frameLength = push_bit 11 (byte_at data (offset + 3) AND 0x03)
                            OR push_bit 3 (byte_at data (offset + 4))
                            OR (drop_bit 5 (byte_at data (offset + 5)) AND 0x07);
            headerSize = (if protectionAbsent \<noteq> 0 then 7 else 9)
        in Some \<lparr>syncword = syncword_at data offset,
                 profile = profile,
                 profileName =
                   (case element profiles profile of
                      Some name \<Rightarrow> if name = [] then ''Profile '' @ decimal (nat profile) else name
                    | None \<Rightarrow> ''Profile '' @ decimal (nat profile)),
                 sampleRateIndex = sampleRateIndex,
                 adts_sampleRate = element sampleRates sampleRateIndex,
                 channelConfig = channelConfig,
                 adts_channels = (if channelConfig = 7 then 8 else channelConfig),
                 frameLength = frameLength,
                 headerSize = headerSize,
                 protectionAbsent = protectionAbsent,
                 dataLength = frameLength - headerSize\<rparr>)"

section \<open>The configuration record from the codec string\<close>

text \<open>
  \<open>String.prototype.split('.')\<close>, and \<open>parseInt(s, 10)\<close> on a byte string: leading white
  space is skipped, a sign is accepted, the longest run of digits is read, and the result
  is NaN (\<open>None\<close>) when there is no digit. The model is the function on ASCII strings
  whose value is below \<open>2 ^ 53\<close>: it skips the ASCII white space only, where JavaScript
  also skips the other Unicode spaces, and it keeps every digit, where JavaScript rounds a
  longer number to a double.
\<close>

fun split_on :: "char \<Rightarrow> string \<Rightarrow> string list" where
  "split_on sep [] = [ [] ]"
| "split_on sep (c # cs) =
     (if c = sep then [] # split_on sep cs
      else (case split_on sep cs of w # ws \<Rightarrow> (c # w) # ws | [] \<Rightarrow> [ [c] ]))"

definition is_space :: "char \<Rightarrow> bool" where
  "is_space c = (c \<in> set [CHR '' '', CHR 0x09, CHR 0x0A, CHR 0x0B, CHR 0x0C, CHR 0x0D])"

definition is_digit :: "char \<Rightarrow> bool" where
  "is_digit c = (48 \<le> (of_char c :: nat) \<and> (of_char c :: nat) \<le> 57)"

definition parseInt :: "string \<Rightarrow> int option" where
  "parseInt s =
     (let s1 = dropWhile is_space s;
          negative = (case s1 of c # _ \<Rightarrow> c = CHR ''-'' | [] \<Rightarrow> False);
          s2 = (case s1 of c # r \<Rightarrow> if c = CHR ''-'' \<or> c = CHR ''+'' then r else s1 | [] \<Rightarrow> s1);
          ds = takeWhile is_digit s2;
          v = foldl (\<lambda>a c. 10 * a + (int (of_char c) - 48)) 0 ds
      in if ds = [] then None else Some (if negative then - v else v))"

text \<open>\<open>Array.prototype.indexOf\<close>: the first position, \<open>-1\<close> when absent.\<close>

fun indexOf :: "int list \<Rightarrow> int \<Rightarrow> int" where
  "indexOf [] x = - 1"
| "indexOf (y # ys) x =
     (if y = x then 0 else (let i = indexOf ys x in if i = - 1 then - 1 else i + 1))"

text \<open>A NaN operand of a bitwise operator counts as 0.\<close>

definition int_of_number :: "int option \<Rightarrow> int" where
  "int_of_number v = (case v of Some i \<Rightarrow> i | None \<Rightarrow> 0)"

text \<open>
  The block of \<open>extractAudioWithMP4Box\<close> (lab/decode_mp4_complete.js) that builds
  \<open>audioConfig\<close> from the codec string of a track without a configuration in the container;
  \<open>None\<close> is \<open>audioConfig\<close> left \<open>null\<close>. The sample rate and the channel count are the
  integers of the track description; half of an odd sample rate is in no table.
\<close>

definition audioConfig_from_codec :: "string \<Rightarrow> int \<Rightarrow> int \<Rightarrow> u8 list option" where
  "audioConfig_from_codec codec sample_rate channel_count =
     (let codecParts = split_on CHR ''.'' codec
      in if 3 \<le> length codecParts \<and> codecParts ! 0 = ''mp4a'' \<and> codecParts ! 1 = ''40'' then
           let objectType = parseInt (codecParts ! 2);
               i = indexOf sampleRates sample_rate;
               sampleRateIndex = (if i = - 1 then 15 else i)
           in if objectType = Some 5 then
                let j = (if even sample_rate then indexOf sampleRates (sample_rate div 2) else - 1);
                    coreSampleRateIndex = (if j = - 1 then 15 else j)
                in Some [word_of_int (push_bit 3 (int_of_number objectType)
                                        OR drop_bit 1 coreSampleRateIndex),
                         word_of_int (push_bit 7 (coreSampleRateIndex AND 0x1)
                                        OR push_bit 3 channel_count OR 0x04),
                         0x56,
                         word_of_int (0xE5 OR push_bit 3 sampleRateIndex)]
              else
                Some [word_of_int (push_bit 3 (int_of_number objectType)
                                     OR drop_bit 1 sampleRateIndex),
                      word_of_int (push_bit 7 (sampleRateIndex AND 0x1) OR push_bit 3 channel_count)]
         else None)"

text \<open>
  The choice of \<open>finalASC\<close> in \<open>testMP4NativeDecode\<close>, reached with a non-null
  \<open>audioConfig\<close>: for the codec string \<open>mp4a.40.5\<close> the record is rebuilt with the constant
  \<open>sampleRateIndex = 7\<close>, otherwise \<open>audioConfig\<close> is used as it is.
\<close>

definition finalASC :: "string \<Rightarrow> int \<Rightarrow> u8 list \<Rightarrow> u8 list" where
  "finalASC codec channel_count audioConfig =
     (if codec = ''mp4a.40.5'' then
        (let sampleRateIndex = 7
         in [word_of_int (push_bit 3 2 OR drop_bit 1 sampleRateIndex),
             word_of_int (push_bit 7 (sampleRateIndex AND 0x1) OR push_bit 3 channel_count)])
      else audioConfig)"

text \<open>
  The record that \<open>testMP4NativeDecode\<close> passes to \<open>configure\<close> for a track with the given
  codec string, sample rate and channel count and no configuration in the container;
  \<open>None\<close> when the script stops with "No AudioSpecificConfig found".
\<close>

definition configured_asc :: "string \<Rightarrow> int \<Rightarrow> int \<Rightarrow> u8 list option" where
  "configured_asc codec sample_rate channel_count =
     (case audioConfig_from_codec codec sample_rate channel_count of
        None \<Rightarrow> None
      | Some audioConfig \<Rightarrow> Some (finalASC codec channel_count audioConfig))"

text \<open>
  The fields of a two-byte configuration record as the README decodes them: the object
  type in the top 5 bits, the frequency index in the next 4 and the channel configuration
  in the following 4.
\<close>

definition asc_objectType :: "u8 list \<Rightarrow> int" where
  "asc_objectType asc = drop_bit 3 (byte_at asc 0)"

definition asc_frequencyIndex :: "u8 list \<Rightarrow> int" where
  "asc_frequencyIndex asc = push_bit 1 (byte_at asc 0 AND 0x07) OR drop_bit 7 (byte_at asc 1)"

definition asc_channelConfiguration :: "u8 list \<Rightarrow> int" where
  "asc_channelConfiguration asc = drop_bit 3 (byte_at asc 1) AND 0x0F"

section \<open>The descriptor length of extractAudioFromMP4\<close>

text \<open>
  The loop \<open>do { byte = readUInt8(); size = (size << 7) | (byte & 0x7F) } while (byte & 0x80)\<close>
  on a parser at \<open>offset\<close>, with \<open>sz\<close> for the variable \<open>size\<close>; it returns the size and the
  new offset. \<open>readUInt8\<close> past the
  end of the buffer raises a RangeError. The shift and the disjunction give a signed 32-bit
  value.
\<close>

definition int32 :: "int \<Rightarrow> int" where
  "int32 x = signed_take_bit 31 x"

function read_size :: "u8 list \<Rightarrow> nat \<Rightarrow> int \<Rightarrow> error + (int \<times> nat)" where
  "read_size buffer offset sz =
     (if offset < length buffer then
        (let byte = byte_at buffer offset;
             sz' = int32 (int32 (push_bit 7 sz) OR (byte AND 0x7F))
         in if byte AND 0x80 \<noteq> 0 then read_size buffer (offset + 1) sz'
            else Inr (sz', offset + 1))
      else Inl RangeError)"
  by pat_completeness auto
termination
  by (relation "measure (\<lambda>(buffer, offset, sz). length buffer - offset)") auto

text \<open>One round of the loop, and the loop on the bytes of an encoding.\<close>

definition size_step :: "int \<Rightarrow> u8 \<Rightarrow> int" where
  "size_step sz b = int32 (int32 (push_bit 7 sz) OR (uint b AND 0x7F))"

text \<open>
  The value that the specification gives an encoding: the low 7 bits of its bytes, one
  after the other, first byte first.
\<close>

definition concat7 :: "u8 list \<Rightarrow> int" where
  "concat7 enc = foldl (\<lambda>a b. a * 128 + (uint b AND 0x7F)) 0 enc"

section \<open>Calls, sequences of calls and example values\<close>

text \<open>
  What \<open>_decode_frame\<close> returns in the call \<open>decode(frameData)\<close>: it is given the stripped
  frame followed by 64 zero bytes, the length of the stripped frame and the output
  capacity \<open>2048 * 2 * 2 * 4\<close>.
\<close>

definition engine_reply :: "decode_call \<Rightarrow> u8 list \<Rightarrow> int \<times> sample list" where
  "engine_reply decode_frame frameData =
     decode_frame (stripADTS frameData @ replicate 64 0) (length (stripADTS frameData)) 32768"

text \<open>The module after a call has taken and released the two regions of \<open>frameData\<close>.\<close>

definition after_call :: "wasm_module \<Rightarrow> u8 list \<Rightarrow> wasm_module" where
  "after_call m frameData = m\<lparr>next_ptr := next_ptr m + (length (stripADTS frameData) + 64) + 32768\<rparr>"

text \<open>The number of regions of the module that are allocated and not released.\<close>

definition outstanding :: "decoder \<Rightarrow> nat" where
  "outstanding d = (case module d of None \<Rightarrow> 0 | Some m \<Rightarrow> length (live m))"

text \<open>
  A sequence of \<open>decode\<close> calls on one decoder, each with its frame and the engine's answer;
  a caller that catches the exception of one call goes on with the next, as the lab
  scripts do.
\<close>

fun decode_all :: "decoder \<Rightarrow> (u8 list \<times> decode_call) list \<Rightarrow> decoder" where
  "decode_all d [] = d"
| "decode_all d ((frameData, decode_frame) # calls) =
     decode_all (snd (decode d frameData decode_frame)) calls"

text \<open>The integer part of a quotient, the length that \<open>new Float32Array\<close> gives an array.\<close>

definition whole_part :: "jsnum \<Rightarrow> nat" where
  "whole_part n = (case n of Whole k \<Rightarrow> k | Inexact s c \<Rightarrow> s div c | _ \<Rightarrow> 0)"

text \<open>
  Example values: a decoder after a successful \<open>configure\<close>, an engine that answers every
  call with the same packed word and memory contents, and one that accepts one
  configuration record and refuses every other.
\<close>

definition configured_decoder :: decoder where
  "configured_decoder =
     \<lparr>module = Some \<lparr>live = [], next_ptr = 8\<rparr>, initialized = True,
      st_sampleRate = 0, st_channels = 0\<rparr>"

definition answer :: "int \<Rightarrow> sample list \<Rightarrow> decode_call" where
  "answer packed mem = (\<lambda>input n capacity. (packed, mem))"

definition accept_only :: "u8 list \<Rightarrow> init_call" where
  "accept_only expected = (\<lambda>asc n. if asc = expected \<and> n = length expected then 0 else - 1)"

section \<open>Facts about decode\<close>

lemma decode_unready:
  "module d = None \<or> \<not> initialized d \<Longrightarrow> decode d f df = (Inl NotInitialized, d)"
  by (auto simp: decode_def split: option.splits)

lemma decode_ready:
  assumes "module d = Some m" and "initialized d" and "engine_reply df f = (packed, mem)"
  shows "decode d f df =
     (if packed \<le> 0 then (Inr None, d\<lparr>module := Some (after_call m f)\<rparr>)
      else if length mem < nat (take_bit 32 packed AND 0xffffff)
      then (Inl RangeError,
            d\<lparr>module := Some (after_call m f
                     \<lparr>live := (next_ptr m + (length (stripADTS f) + 64)) # live m\<rparr>),
              st_sampleRate :=
                (case SAMPLE_RATE (drop_bit 28 (take_bit 32 packed) AND 0xf) of
                   Some r \<Rightarrow> r | None \<Rightarrow> 0),
              st_channels := drop_bit 24 (take_bit 32 packed) AND 0xf\<rparr>)
      else (Inr (Some \<lparr>pcm = take (nat (take_bit 32 packed AND 0xffffff)) mem,
                       sampleRate =
                         (case SAMPLE_RATE (drop_bit 28 (take_bit 32 packed) AND 0xf) of
                            Some r \<Rightarrow> r | None \<Rightarrow> 0),
                       channels = drop_bit 24 (take_bit 32 packed) AND 0xf,
                       samplesPerChannel =
                         js_div (take_bit 32 packed AND 0xffffff)
                           (drop_bit 24 (take_bit 32 packed) AND 0xf)\<rparr>),
            d\<lparr>module := Some (after_call m f),
              st_sampleRate :=
                (case SAMPLE_RATE (drop_bit 28 (take_bit 32 packed) AND 0xf) of
                   Some r \<Rightarrow> r | None \<Rightarrow> 0),
              st_channels := drop_bit 24 (take_bit 32 packed) AND 0xf\<rparr>))"
  using assms
  by (simp add: decode_def engine_reply_def after_call_def malloc_def free_def Let_def)

lemma decode_result:
  assumes "decode d f df = (Inr (Some r), d')"
  shows "0 < fst (engine_reply df f)
    \<and> r = \<lparr>pcm = take (nat (take_bit 32 (fst (engine_reply df f)) AND 0xffffff))
                    (snd (engine_reply df f)),
           sampleRate =
             (case SAMPLE_RATE (drop_bit 28 (take_bit 32 (fst (engine_reply df f))) AND 0xf) of
                Some r \<Rightarrow> r | None \<Rightarrow> 0),
           channels = drop_bit 24 (take_bit 32 (fst (engine_reply df f))) AND 0xf,
           samplesPerChannel =
             js_div (take_bit 32 (fst (engine_reply df f)) AND 0xffffff)
               (drop_bit 24 (take_bit 32 (fst (engine_reply df f))) AND 0xf)\<rparr>
    \<and> nat (take_bit 32 (fst (engine_reply df f)) AND 0xffffff) \<le> length (snd (engine_reply df f))"
proof -
  obtain m where m: "module d = Some m" and i: "initialized d"
    using assms decode_unready [of d f df] by (cases "module d") auto
  obtain packed mem where e: "engine_reply df f = (packed, mem)"
    by (cases "engine_reply df f")
  show ?thesis
    using assms decode_ready [OF m i e] e by (auto split: if_splits)
qed

lemma decode_live:
  "fst (decode d f df) \<noteq> Inl RangeError \<Longrightarrow>
   map_option live (module (snd (decode d f df))) = map_option live (module d)"
proof (cases "module d = None \<or> \<not> initialized d")
  case True
  then show ?thesis by (simp add: decode_unready)
next
  case False
  then obtain m where m: "module d = Some m" and i: "initialized d" by auto
  obtain packed mem where e: "engine_reply df f = (packed, mem)"
    by (cases "engine_reply df f")
  assume "fst (decode d f df) \<noteq> Inl RangeError"
  then show ?thesis
    using decode_ready [OF m i e] m by (auto simp: after_call_def split: if_splits)
qed

lemma decode_no_output_live:
  assumes "fst (engine_reply df f) \<le> 0"
  shows "fst (decode d f df) \<noteq> Inl RangeError"
proof (cases "module d = None \<or> \<not> initialized d")
  case True
  then show ?thesis by (simp add: decode_unready)
next
  case False
  then obtain m where m: "module d = Some m" and i: "initialized d" by auto
  obtain packed mem where e: "engine_reply df f = (packed, mem)"
    by (cases "engine_reply df f")
  show ?thesis
    using decode_ready [OF m i e] e assms by simp
qed

lemma decode_all_live:
  "\<forall>(f, df) \<in> set calls. fst (engine_reply df f) \<le> 0 \<Longrightarrow>
   map_option live (module (decode_all d calls)) = map_option live (module d)"
proof (induction calls arbitrary: d)
  case Nil
  then show ?case by simp
next
  case (Cons c calls)
  obtain f df where c: "c = (f, df)" by (cases c)
  from Cons.prems c have "fst (engine_reply df f) \<le> 0" by simp
  then have "map_option live (module (snd (decode d f df))) = map_option live (module d)"
    by (intro decode_live decode_no_output_live)
  moreover have "map_option live (module (decode_all (snd (decode d f df)) calls))
      = map_option live (module (snd (decode d f df)))"
    using Cons.prems by (intro Cons.IH) simp
  ultimately show ?case by (simp add: c)
qed

lemma outstanding_live:
  "map_option live (module d') = map_option live (module d) \<Longrightarrow> outstanding d' = outstanding d"
  by (cases "module d"; cases "module d'") (auto simp: outstanding_def)

section \<open>The sample rate of a decoded frame\<close>

text \<open>
  C1, as the code has it. A call of \<open>decode\<close> that returns a result had a positive packed
  status word, and the sample rate of the result is the entry of the decoder's own table
  \<open>SAMPLE_RATE\<close> for the index in bits 31-28 of the word: 8000 for 1, 16000 for 2, 22050
  for 3, 32000 for 4, 44100 for 5, 48000 for 6, 64000 for 7, 88200 for 8, 96000 for 9, and
  0 for every index without an entry (0 and 10 to 15). This is not the table of
  \<open>parseADTS\<close>, which starts with 96000 at index 0.
\<close>

theorem decode_sampleRate_table:
  assumes "decode d f df = (Inr (Some r), d')"
  shows "0 < fst (engine_reply df f) \<and>
    sampleRate r =
     (let i = drop_bit 28 (take_bit 32 (fst (engine_reply df f))) AND 0xf
      in if i = 1 then 8000 else if i = 2 then 16000 else if i = 3 then 22050
         else if i = 4 then 32000 else if i = 5 then 44100 else if i = 6 then 48000
         else if i = 7 then 64000 else if i = 8 then 88200 else if i = 9 then 96000
         else 0)"
  using decode_result [OF assms] by (simp add: SAMPLE_RATE_def Let_def)

lemma decode_index_4:
  "decode configured_decoder [] (answer 0x42000004 [F32 0, F32 0, F32 0, F32 0]) =
     (Inr (Some \<lparr>pcm = [F32 0, F32 0, F32 0, F32 0], sampleRate = 32000, channels = 2,
                 samplesPerChannel = Whole 2\<rparr>),
      configured_decoder\<lparr>module := Some \<lparr>live = [], next_ptr = 32840\<rparr>,
        st_sampleRate := 32000, st_channels := 2\<rparr>)"
  by (simp add: decode_def configured_decoder_def answer_def SAMPLE_RATE_def js_div_def
      malloc_def free_def stripADTS_def Let_def)

theorem decode_sampleRate_table_witness:
  "decode configured_decoder [] (answer 0x42000004 [F32 0, F32 0, F32 0, F32 0]) =
     (Inr (Some \<lparr>pcm = [F32 0, F32 0, F32 0, F32 0], sampleRate = 32000, channels = 2,
                 samplesPerChannel = Whole 2\<rparr>),
      configured_decoder\<lparr>module := Some \<lparr>live = [], next_ptr = 32840\<rparr>,
        st_sampleRate := 32000, st_channels := 2\<rparr>)
   \<and> sampleRate \<lparr>pcm = [F32 0, F32 0, F32 0, F32 0], sampleRate = 32000, channels = 2,
                 samplesPerChannel = Whole 2\<rparr> = 32000"
  using decode_sampleRate_table [OF decode_index_4] decode_index_4 by simp

text \<open>
  The claim as it is written fails for the packed word \<open>0x42000004\<close> (index 4, two
  channels, four samples): the table of section 6 of the specification, which is the
  table of \<open>parseADTS\<close>, has 44100 at index 4, and the call returns 32000.
\<close>

theorem decode_sampleRate_canonical_counterexample:
  "fst (decode configured_decoder [] (answer 0x42000004 [F32 0, F32 0, F32 0, F32 0])) =
     Inr (Some \<lparr>pcm = [F32 0, F32 0, F32 0, F32 0], sampleRate = 32000, channels = 2,
                samplesPerChannel = Whole 2\<rparr>)
   \<and> drop_bit 28 (take_bit 32 (0x42000004 :: int)) AND 0xf = 4
   \<and> sampleRates ! 4 = 44100
   \<and> sampleRate \<lparr>pcm = [F32 0, F32 0, F32 0, F32 0], sampleRate = 32000, channels = 2,
                 samplesPerChannel = Whole 2\<rparr> \<noteq> sampleRates ! 4"
  by (simp add: decode_def configured_decoder_def answer_def SAMPLE_RATE_def js_div_def
      malloc_def free_def stripADTS_def Let_def sampleRates_def)

section \<open>The regions of a call\<close>

text \<open>
  The two return paths of \<open>decode\<close> release what the call allocated. Whenever a call does
  not end in the RangeError of the sample view, that is, whenever it returns no output or
  a result (or refuses an unconfigured decoder before allocating), the regions that are
  allocated and not released are the same after the call as before it. So any sequence of
  calls in which every packed status is non-positive leaves as many regions outstanding as
  it found, zero when it starts from zero.
\<close>

lemma decode_return_paths_release:
  "(fst (decode d f df) \<noteq> Inl RangeError \<longrightarrow>
      map_option live (module (snd (decode d f df))) = map_option live (module d)
      \<and> outstanding (snd (decode d f df)) = outstanding d)
   \<and> ((\<forall>(f', df') \<in> set calls. fst (engine_reply df' f') \<le> 0) \<longrightarrow>
      outstanding (decode_all d calls) = outstanding d)"
proof (intro conjI impI)
  assume "fst (decode d f df) \<noteq> Inl RangeError"
  then show returned: "map_option live (module (snd (decode d f df))) = map_option live (module d)"
    by (rule decode_live)
  then show "outstanding (snd (decode d f df)) = outstanding d"
    by (rule outstanding_live)
next
  assume "\<forall>(f', df') \<in> set calls. fst (engine_reply df' f') \<le> 0"
  then have "map_option live (module (decode_all d calls)) = map_option live (module d)"
    by (rule decode_all_live)
  then show "outstanding (decode_all d calls) = outstanding d"
    by (rule outstanding_live)
qed

text \<open>
  C2. Every region that a call of \<open>decode\<close> allocates is to be released before the call
  ends, on every exit path. The path through the RangeError of the sample view does not
  do so. On a configured decoder with no region outstanding, the engine answers the empty
  frame with the packed word \<open>0x12FFFFFF\<close>: \<open>0xFFFFFF\<close> samples, which need 64 MiB after
  \<open>outPtr\<close>, in a module memory that holds 4194304 Float32 elements (16 MiB) there. The
  input region (pointer 8) is released after the engine call; then the view
  \<open>new Float32Array(buffer, outPtr, samples)\<close> raises, and the call ends before the
  \<open>_free(outPtr)\<close> that both return paths perform. The output region (pointer 72) stays
  allocated: one region is outstanding after the call.
\<close>

theorem decode_view_error_leak:
  "decode configured_decoder [] (answer 0x12FFFFFF (replicate 4194304 (F32 0))) =
     (Inl RangeError,
      configured_decoder\<lparr>module := Some \<lparr>live = [72], next_ptr = 32840\<rparr>,
        st_sampleRate := 8000, st_channels := 2\<rparr>)
   \<and> outstanding configured_decoder = 0
   \<and> outstanding
        (snd (decode configured_decoder [] (answer 0x12FFFFFF (replicate 4194304 (F32 0))))) = 1"
  by (simp add: decode_def configured_decoder_def answer_def SAMPLE_RATE_def js_div_def
      malloc_def free_def stripADTS_def Let_def outstanding_def)

section \<open>No validation of the decoded counts\<close>

text \<open>
  C3, as the code has it. A call of \<open>decode\<close> on a configured decoder whose packed status
  word is positive, and whose sample view lies within the module memory, returns the
  result built from the decoded values without checking them: \<open>channels\<close> is the value of
  bits 27-24 also when it is 0, \<open>pcm\<close> holds as many samples as bits 23-0 say also when
  that is no multiple of the channel count, and \<open>samplesPerChannel\<close> is their quotient,
  which is then no integer, or \<open>Infinity\<close> or \<open>NaN\<close> for the channel count 0. No error is
  reported for such values.
\<close>

theorem decode_returns_unvalidated:
  assumes "module d = Some m" and "initialized d"
    and "engine_reply df f = (packed, mem)"
    and "0 < packed"
    and "nat (take_bit 32 packed AND 0xffffff) \<le> length mem"
  shows "fst (decode d f df) =
     Inr (Some \<lparr>pcm = take (nat (take_bit 32 packed AND 0xffffff)) mem,
                sampleRate =
                  (case SAMPLE_RATE (drop_bit 28 (take_bit 32 packed) AND 0xf) of
                     Some r \<Rightarrow> r | None \<Rightarrow> 0),
                channels = drop_bit 24 (take_bit 32 packed) AND 0xf,
                samplesPerChannel =
                  js_div (take_bit 32 packed AND 0xffffff)
                    (drop_bit 24 (take_bit 32 packed) AND 0xf)\<rparr>)"
  using assms decode_ready [OF assms(1-3)] by simp

theorem decode_returns_unvalidated_witness:
  "module configured_decoder = Some \<lparr>live = [], next_ptr = 8\<rparr>
   \<and> initialized configured_decoder
   \<and> engine_reply (answer 0x10000003 [F32 0, F32 0, F32 0]) [] =
       (0x10000003, [F32 0, F32 0, F32 0])
   \<and> (0 :: int) < 0x10000003
   \<and> nat (take_bit 32 0x10000003 AND 0xffffff) \<le> length [F32 0, F32 0, F32 0]
   \<and> fst (decode configured_decoder [] (answer 0x10000003 [F32 0, F32 0, F32 0])) =
       Inr (Some \<lparr>pcm = [F32 0, F32 0, F32 0], sampleRate = 8000, channels = 0,
                  samplesPerChannel = Infinity\<rparr>)"
proof -
  have a: "module configured_decoder = Some \<lparr>live = [], next_ptr = 8\<rparr>"
    and b: "initialized configured_decoder"
    by (simp_all add: configured_decoder_def)
  have c: "engine_reply (answer 0x10000003 [F32 0, F32 0, F32 0]) [] =
       (0x10000003, [F32 0, F32 0, F32 0])"
    by (simp add: engine_reply_def answer_def)
  have e: "nat (take_bit 32 0x10000003 AND 0xffffff) \<le> length [F32 0, F32 0, F32 0]"
    by simp
  show ?thesis
    using a b c e decode_returns_unvalidated [OF a b c _ e]
    by (simp add: SAMPLE_RATE_def js_div_def)
qed

text \<open>
  The claim as it is written fails for the packed word \<open>0x10000003\<close>: the channel count
  in bits 27-24 is 0, outside 1 to 15, and the call returns a result with \<open>channels = 0\<close>
  instead of an error.
\<close>

theorem decode_zero_channels_counterexample:
  "drop_bit 24 (take_bit 32 (0x10000003 :: int)) AND 0xf = 0
   \<and> decode configured_decoder [] (answer 0x10000003 [F32 0, F32 0, F32 0]) =
     (Inr (Some \<lparr>pcm = [F32 0, F32 0, F32 0], sampleRate = 8000, channels = 0,
                 samplesPerChannel = Infinity\<rparr>),
      configured_decoder\<lparr>module := Some \<lparr>live = [], next_ptr = 32840\<rparr>,
        st_sampleRate := 8000, st_channels := 0\<rparr>)"
  by (simp add: decode_def configured_decoder_def answer_def SAMPLE_RATE_def js_div_def
      malloc_def free_def stripADTS_def Let_def)

section \<open>configure on a short buffer\<close>

text \<open>
  C10. With the engine module loaded, \<open>configure\<close> on a buffer of at most 2 bytes does the
  same with \<open>autoDetect\<close> set as without it, and what it does is decided by the engine's
  initialisation applied to that very buffer and its length: \<open>_extractASC\<close> is not
  consulted, and the buffer reaches \<open>_init_decoder\<close> unchanged.
\<close>

theorem configure_short_buffer:
  assumes "length buf \<le> 2" and "module d = Some m"
  shows "configure d buf autoDetect init_decoder =
     (if init_decoder buf (length buf) < 0
      then (Inl InitFailed,
            d\<lparr>module := Some (m\<lparr>next_ptr := next_ptr m + max 1 (length buf)\<rparr>)\<rparr>)
      else (Inr (),
            d\<lparr>module := Some (m\<lparr>next_ptr := next_ptr m + max 1 (length buf)\<rparr>),
              initialized := True\<rparr>))
   \<and> configure d buf True init_decoder = configure d buf False init_decoder"
  using assms by (simp add: configure_def malloc_def free_def Let_def)

theorem configure_short_buffer_witness:
  "length [0x12, 0x10 :: u8] \<le> 2
   \<and> module (configured_decoder\<lparr>initialized := False\<rparr>) = Some \<lparr>live = [], next_ptr = 8\<rparr>
   \<and> configure (configured_decoder\<lparr>initialized := False\<rparr>) [0x12, 0x10] True
        (accept_only [0x12, 0x10]) =
       (Inr (), configured_decoder\<lparr>module := Some \<lparr>live = [], next_ptr = 10\<rparr>\<rparr>)"
proof -
  have a: "length [0x12, 0x10 :: u8] \<le> 2" by simp
  have b: "module (configured_decoder\<lparr>initialized := False\<rparr>) = Some \<lparr>live = [], next_ptr = 8\<rparr>"
    by (simp add: configured_decoder_def)
  show ?thesis
    using a b configure_short_buffer [OF a b, of True "accept_only [0x12, 0x10]"]
    by (simp add: accept_only_def configured_decoder_def)
qed

section \<open>decodeInt16\<close>

lemma trunc_real_bounds:
  assumes "- 32767 \<le> v" and "v \<le> 32767"
  shows "- 32767 \<le> trunc_real v \<and> trunc_real v \<le> 32767"
proof (cases "0 \<le> v")
  case True
  then have "0 \<le> \<lfloor>v\<rfloor>" by simp
  moreover have "\<lfloor>v\<rfloor> \<le> 32767" using assms(2) by (simp add: floor_le_iff)
  ultimately show ?thesis using True by (simp add: trunc_real_def)
next
  case False
  then have "\<lceil>v\<rceil> \<le> 0" by (simp add: ceiling_le_iff)
  moreover have "- 32767 \<le> \<lceil>v\<rceil>" using assms(1) by (simp add: le_ceiling_iff)
  ultimately show ?thesis using False by (simp add: trunc_real_def)
qed

lemma to_int16_clamped:
  "- 32767 \<le> to_int16 (times_32767 (Math_max_neg1 (Math_min1 x)))
   \<and> to_int16 (times_32767 (Math_max_neg1 (Math_min1 x))) \<le> 32767"
proof (cases x)
  case (F32 r)
  let ?v = "max (- 1) (min 1 r) * 32767"
  have "- 32767 \<le> ?v" and "?v \<le> 32767" by (simp_all add: max_def min_def)
  then have t: "- 32767 \<le> trunc_real ?v \<and> trunc_real ?v \<le> 32767"
    by (rule trunc_real_bounds)
  then have "signed_take_bit 15 (trunc_real ?v) = trunc_real ?v"
    by (intro signed_take_bit_int_eq_self) simp_all
  with t F32 show ?thesis
    by (simp add: to_int16_def times_32767_def Math_max_neg1_def Math_min1_def)
qed (simp_all add: to_int16_def times_32767_def Math_max_neg1_def Math_min1_def trunc_real_def)

text \<open>
  C9. Every element of the Int16 array that \<open>decodeInt16\<close> returns lies between -32767
  and 32767, and the call returns a result exactly when \<open>decode\<close> does on the same frame,
  with the same sample rate, channel count and samples per channel, one Int16 value for
  each sample, and leaves the decoder as \<open>decode\<close> leaves it.
\<close>

theorem decodeInt16_range:
  assumes "decodeInt16 d f df = (Inr (Some r16), d')"
  shows "(\<forall>x \<in> set (pcm16 r16). - 32767 \<le> x \<and> x \<le> 32767)
   \<and> (\<exists>r. decode d f df = (Inr (Some r), d')
        \<and> sampleRate16 r16 = sampleRate r
        \<and> channels16 r16 = channels r
        \<and> samplesPerChannel16 r16 = samplesPerChannel r
        \<and> length (pcm16 r16) = length (pcm r))"
proof -
  obtain res d1 where dec: "decode d f df = (res, d1)"
    by (cases "decode d f df")
  with assms obtain r where r: "res = Inr (Some r)" and d1: "d1 = d'"
    and r16: "r16 = \<lparr>pcm16 = map (\<lambda>x. to_int16 (times_32767 (Math_max_neg1 (Math_min1 x)))) (pcm r),
                     sampleRate16 = sampleRate r, channels16 = channels r,
                     samplesPerChannel16 = samplesPerChannel r\<rparr>"
    by (auto simp: decodeInt16_def split: sum.splits option.splits)
  have "\<forall>x \<in> set (pcm16 r16). - 32767 \<le> x \<and> x \<le> 32767"
    using to_int16_clamped by (auto simp: r16)
  then show ?thesis
    using dec r d1 by (simp add: r16)
qed

lemma decodeInt16_example:
  "decodeInt16 configured_decoder [] (answer 0x12000004 [F32 2, F32 (- 2), F32 (1 / 2), F32_NaN]) =
     (Inr (Some \<lparr>pcm16 = [32767, - 32767, 16383, 0], sampleRate16 = 8000, channels16 = 2,
                 samplesPerChannel16 = Whole 2\<rparr>),
      configured_decoder\<lparr>module := Some \<lparr>live = [], next_ptr = 32840\<rparr>,
        st_sampleRate := 8000, st_channels := 2\<rparr>)"
  by (simp add: decodeInt16_def decode_def configured_decoder_def answer_def SAMPLE_RATE_def
      js_div_def malloc_def free_def stripADTS_def Let_def to_int16_def times_32767_def
      Math_max_neg1_def Math_min1_def trunc_real_def)

theorem decodeInt16_range_witness:
  "decodeInt16 configured_decoder [] (answer 0x12000004 [F32 2, F32 (- 2), F32 (1 / 2), F32_NaN]) =
     (Inr (Some \<lparr>pcm16 = [32767, - 32767, 16383, 0], sampleRate16 = 8000, channels16 = 2,
                 samplesPerChannel16 = Whole 2\<rparr>),
      configured_decoder\<lparr>module := Some \<lparr>live = [], next_ptr = 32840\<rparr>,
        st_sampleRate := 8000, st_channels := 2\<rparr>)
   \<and> - 32767 \<le> (32767 :: int) \<and> - 32767 \<le> (16383 :: int) \<and> (16383 :: int) \<le> 32767
   \<and> (\<exists>r. decode configured_decoder []
              (answer 0x12000004 [F32 2, F32 (- 2), F32 (1 / 2), F32_NaN]) =
            (Inr (Some r),
             configured_decoder\<lparr>module := Some \<lparr>live = [], next_ptr = 32840\<rparr>,
               st_sampleRate := 8000, st_channels := 2\<rparr>)
          \<and> sampleRate r = 8000 \<and> channels r = 2 \<and> samplesPerChannel r = Whole 2
          \<and> length (pcm r) = 4)"
  using decodeInt16_range [OF decodeInt16_example] decodeInt16_example by auto

section \<open>decodePlanar\<close>

lemma fold_store:
  "fold (\<lambda>i a. store a i (g i)) [0..<m] a =
     map (\<lambda>i. if i < m then g i else a ! i) [0..<length a]"
proof (induction m)
  case 0
  show ?case by (simp add: map_nth)
next
  case (Suc m)
  let ?b = "map (\<lambda>i. if i < m then g i else a ! i) [0..<length a]"
  let ?b' = "map (\<lambda>i. if i < Suc m then g i else a ! i) [0..<length a]"
  have step: "fold (\<lambda>i a. store a i (g i)) [0..<Suc m] a = store ?b m (g m)"
    by (simp add: Suc.IH)
  have "store ?b m (g m) = ?b'"
  proof (cases "m < length a")
    case True
    then have "?b[m := g m] = ?b'"
      by (intro nth_equalityI) (auto simp: nth_list_update less_Suc_eq)
    with True show ?thesis by (simp add: store_def)
  next
    case False
    then have "?b = ?b'" by auto
    with False show ?thesis by (simp add: store_def)
  qed
  with step show ?case by simp
qed

lemma fold_store_replicate:
  assumes "l \<le> m"
  shows "fold (\<lambda>i a. store a i (g i)) [0..<m] (replicate l z) = map g [0..<l]"
  using assms by (simp add: fold_store)

lemma channel_samples_finite:
  assumes "n = Whole k \<or> n = Inexact s c'"
  shows "channel_samples p c n ch = Inr (map (\<lambda>i. load p (i * c + ch)) [0..<whole_part n])"
  using assms
  by (auto simp: channel_samples_def new_Float32Array_def loop_indices_def whole_part_def
      fold_store_replicate simp del: upt_Suc)

lemma planar_loop_finite:
  assumes "n = Whole k \<or> n = Inexact s c'"
  shows "planar_loop p c n chs =
     Inr (map (\<lambda>ch. map (\<lambda>i. load p (i * c + ch)) [0..<whole_part n]) chs)"
  by (induction chs) (simp_all add: channel_samples_finite [OF assms])

lemma js_div_finite:
  assumes "0 \<le> s" and "0 < c"
  shows "(\<exists>k. js_div s c = Whole k) \<or> (\<exists>a b. js_div s c = Inexact a b)"
    and "whole_part (js_div s c) = nat s div nat c"
  using assms by (simp_all add: js_div_def whole_part_def nat_div_distrib)

lemma interleaved_index:
  fixes i c ch s :: nat
  assumes "i < s div c" and "ch < c"
  shows "i * c + ch < s"
proof -
  have "i * c + ch < Suc i * c" using assms(2) by simp
  also have "\<dots> \<le> (s div c) * c" using assms(1) by (intro mult_le_mono1) simp
  also have "\<dots> \<le> s" by simp
  finally show ?thesis .
qed

text \<open>
  C8, as the code has it. When \<open>decode\<close> returns no output, so does \<open>decodePlanar\<close> on the
  same frame. When \<open>decode\<close> returns a result with interleaved \<open>pcm\<close>, \<open>c \<ge> 1\<close> channels
  and \<open>samplesPerChannel = n\<close>, \<open>decodePlanar\<close> returns the same sample rate and channel
  count and \<open>c\<close> channel arrays, each as long as the integer part of \<open>n\<close>, which is \<open>n\<close>
  itself when \<open>c\<close> divides the number of samples; \<open>channelData[ch][i]\<close> is
  \<open>pcm[i * c + ch]\<close> for every \<open>ch < c\<close> and every \<open>i\<close> below that length, an index within
  \<open>pcm\<close>.
\<close>

theorem decodePlanar_of_decode:
  "(decode d0 f0 df0 = (Inr None, d0') \<longrightarrow> decodePlanar d0 f0 df0 = (Inr None, d0'))
   \<and> (decode d f df = (Inr (Some r), d') \<and> 1 \<le> channels r \<longrightarrow>
        (\<exists>cd. decodePlanar d f df =
                 (Inr (Some \<lparr>channelData = cd, sampleRateP = sampleRate r,
                             channelsP = channels r\<rparr>), d')
           \<and> length cd = nat (channels r)
           \<and> (\<forall>ch < nat (channels r).
                 length (cd ! ch) = whole_part (samplesPerChannel r)
                 \<and> (\<forall>i < whole_part (samplesPerChannel r).
                       i * nat (channels r) + ch < length (pcm r)
                       \<and> cd ! ch ! i = pcm r ! (i * nat (channels r) + ch)))
           \<and> (\<forall>n. samplesPerChannel r = Whole n \<longrightarrow> whole_part (samplesPerChannel r) = n)))"
proof (intro conjI impI)
  assume "decode d0 f0 df0 = (Inr None, d0')"
  then show "decodePlanar d0 f0 df0 = (Inr None, d0')"
    by (simp add: decodePlanar_def)
next
  assume a: "decode d f df = (Inr (Some r), d') \<and> 1 \<le> channels r"
  then have dec: "decode d f df = (Inr (Some r), d')" and c1: "1 \<le> channels r"
    by simp_all
  define s where "s = take_bit 32 (fst (engine_reply df f)) AND 0xffffff"
  let ?c = "nat (channels r)"
  let ?n = "samplesPerChannel r"
  from decode_result [OF dec]
  have len: "length (pcm r) = nat s" and n_eq: "?n = js_div s (channels r)"
    by (auto simp: s_def)
  have s0: "0 \<le> s" by (simp add: s_def)
  have cpos: "0 < channels r" using c1 by simp
  have fin: "(\<exists>k. ?n = Whole k) \<or> (\<exists>a b. ?n = Inexact a b)"
    and wp: "whole_part ?n = nat s div ?c"
    using js_div_finite [OF s0 cpos] by (simp_all add: n_eq)
  from fin obtain k a b where "?n = Whole k \<or> ?n = Inexact a b" by blast
  then have loop: "planar_loop (pcm r) ?c ?n [0..<?c] =
      Inr (map (\<lambda>ch. map (\<lambda>i. load (pcm r) (i * ?c + ch)) [0..<whole_part ?n]) [0..<?c])"
    by (rule planar_loop_finite)
  let ?cd = "map (\<lambda>ch. map (\<lambda>i. load (pcm r) (i * ?c + ch)) [0..<whole_part ?n]) [0..<?c]"
  have planar: "decodePlanar d f df =
      (Inr (Some \<lparr>channelData = ?cd, sampleRateP = sampleRate r, channelsP = channels r\<rparr>), d')"
    using dec loop by (simp add: decodePlanar_def)
  have elems: "\<forall>ch < ?c. length (?cd ! ch) = whole_part ?n
      \<and> (\<forall>i < whole_part ?n. i * ?c + ch < length (pcm r)
            \<and> ?cd ! ch ! i = pcm r ! (i * ?c + ch))"
  proof (intro allI impI conjI)
    fix ch assume ch: "ch < ?c"
    then show "length (?cd ! ch) = whole_part ?n" by simp
    fix i assume i: "i < whole_part ?n"
    then show in_range: "i * ?c + ch < length (pcm r)"
      using ch interleaved_index [of i "nat s" ?c ch] by (simp add: wp len)
    then show "?cd ! ch ! i = pcm r ! (i * ?c + ch)"
      using ch i by (simp add: load_def)
  qed
  have whole: "\<forall>m. ?n = Whole m \<longrightarrow> whole_part ?n = m"
    by (simp add: whole_part_def)
  have "decodePlanar d f df =
          (Inr (Some \<lparr>channelData = ?cd, sampleRateP = sampleRate r,
                      channelsP = channels r\<rparr>), d')
      \<and> length ?cd = ?c
      \<and> (\<forall>ch < ?c. length (?cd ! ch) = whole_part ?n
            \<and> (\<forall>i < whole_part ?n. i * ?c + ch < length (pcm r)
                  \<and> ?cd ! ch ! i = pcm r ! (i * ?c + ch)))
      \<and> (\<forall>m. ?n = Whole m \<longrightarrow> whole_part ?n = m)"
    using planar elems whole by (intro conjI) simp_all
  then show "\<exists>cd. decodePlanar d f df =
                 (Inr (Some \<lparr>channelData = cd, sampleRateP = sampleRate r,
                             channelsP = channels r\<rparr>), d')
           \<and> length cd = nat (channels r)
           \<and> (\<forall>ch < nat (channels r).
                 length (cd ! ch) = whole_part (samplesPerChannel r)
                 \<and> (\<forall>i < whole_part (samplesPerChannel r).
                       i * nat (channels r) + ch < length (pcm r)
                       \<and> cd ! ch ! i = pcm r ! (i * nat (channels r) + ch)))
           \<and> (\<forall>n. samplesPerChannel r = Whole n \<longrightarrow> whole_part (samplesPerChannel r) = n)"
    by (rule exI [of _ ?cd])
qed

lemma decode_no_output_example:
  "decode configured_decoder [] (answer 0 []) =
     (Inr None, configured_decoder\<lparr>module := Some \<lparr>live = [], next_ptr = 32840\<rparr>\<rparr>)"
  by (simp add: decode_def configured_decoder_def answer_def malloc_def free_def stripADTS_def
      Let_def)

lemma decode_stereo_example:
  "decode configured_decoder [] (answer 0x12000004 [F32 0, F32 1, F32 2, F32 3]) =
     (Inr (Some \<lparr>pcm = [F32 0, F32 1, F32 2, F32 3], sampleRate = 8000, channels = 2,
                 samplesPerChannel = Whole 2\<rparr>),
      configured_decoder\<lparr>module := Some \<lparr>live = [], next_ptr = 32840\<rparr>,
        st_sampleRate := 8000, st_channels := 2\<rparr>)"
  by (simp add: decode_def configured_decoder_def answer_def SAMPLE_RATE_def js_div_def
      malloc_def free_def stripADTS_def Let_def)

theorem decodePlanar_of_decode_witness:
  "decode configured_decoder [] (answer 0 []) =
     (Inr None, configured_decoder\<lparr>module := Some \<lparr>live = [], next_ptr = 32840\<rparr>\<rparr>)
   \<and> decodePlanar configured_decoder [] (answer 0 []) =
     (Inr None, configured_decoder\<lparr>module := Some \<lparr>live = [], next_ptr = 32840\<rparr>\<rparr>)
   \<and> decode configured_decoder [] (answer 0x12000004 [F32 0, F32 1, F32 2, F32 3]) =
     (Inr (Some \<lparr>pcm = [F32 0, F32 1, F32 2, F32 3], sampleRate = 8000, channels = 2,
                 samplesPerChannel = Whole 2\<rparr>),
      configured_decoder\<lparr>module := Some \<lparr>live = [], next_ptr = 32840\<rparr>,
        st_sampleRate := 8000, st_channels := 2\<rparr>)
   \<and> (1 :: int) \<le> 2
   \<and> (\<exists>cd. decodePlanar configured_decoder [] (answer 0x12000004 [F32 0, F32 1, F32 2, F32 3]) =
          (Inr (Some \<lparr>channelData = cd, sampleRateP = 8000, channelsP = 2\<rparr>),
           configured_decoder\<lparr>module := Some \<lparr>live = [], next_ptr = 32840\<rparr>,
             st_sampleRate := 8000, st_channels := 2\<rparr>)
        \<and> length cd = 2
        \<and> length (cd ! 0) = 2 \<and> cd ! 0 ! 0 = F32 0 \<and> cd ! 0 ! 1 = F32 2
        \<and> length (cd ! 1) = 2 \<and> cd ! 1 ! 0 = F32 1 \<and> cd ! 1 ! 1 = F32 3)"
  using decode_no_output_example decode_stereo_example
    decodePlanar_of_decode [of configured_decoder "[]" "answer 0 []"
      "configured_decoder\<lparr>module := Some \<lparr>live = [], next_ptr = 32840\<rparr>\<rparr>"
      configured_decoder "[]" "answer 0x12000004 [F32 0, F32 1, F32 2, F32 3]"
      "\<lparr>pcm = [F32 0, F32 1, F32 2, F32 3], sampleRate = 8000, channels = 2,
        samplesPerChannel = Whole 2\<rparr>"
      "configured_decoder\<lparr>module := Some \<lparr>live = [], next_ptr = 32840\<rparr>,
        st_sampleRate := 8000, st_channels := 2\<rparr>"]
  by (fastforce simp: whole_part_def)

text \<open>
  The claim as it is written fails for the packed word \<open>0x12000005\<close>: two channels and
  five samples. \<open>decode\<close> returns \<open>samplesPerChannel = 5 / 2\<close>, and \<open>decodePlanar\<close> returns
  two arrays of length 2, not of length \<open>5 / 2\<close>: the index 2 is below \<open>5 / 2\<close> and
  \<open>pcm[2 * 2 + 0]\<close> exists, but \<open>channelData[0][2]\<close> does not.
\<close>

theorem decodePlanar_fraction_counterexample:
  "decode configured_decoder [] (answer 0x12000005 [F32 0, F32 1, F32 2, F32 3, F32 4]) =
     (Inr (Some \<lparr>pcm = [F32 0, F32 1, F32 2, F32 3, F32 4], sampleRate = 8000, channels = 2,
                 samplesPerChannel = Inexact 5 2\<rparr>),
      configured_decoder\<lparr>module := Some \<lparr>live = [], next_ptr = 32840\<rparr>,
        st_sampleRate := 8000, st_channels := 2\<rparr>)
   \<and> decodePlanar configured_decoder [] (answer 0x12000005 [F32 0, F32 1, F32 2, F32 3, F32 4]) =
     (Inr (Some \<lparr>channelData = [ [F32 0, F32 2], [F32 1, F32 3] ], sampleRateP = 8000,
                 channelsP = 2\<rparr>),
      configured_decoder\<lparr>module := Some \<lparr>live = [], next_ptr = 32840\<rparr>,
        st_sampleRate := 8000, st_channels := 2\<rparr>)"
proof -
  have dec: "decode configured_decoder [] (answer 0x12000005 [F32 0, F32 1, F32 2, F32 3, F32 4]) =
     (Inr (Some \<lparr>pcm = [F32 0, F32 1, F32 2, F32 3, F32 4], sampleRate = 8000, channels = 2,
                 samplesPerChannel = Inexact 5 2\<rparr>),
      configured_decoder\<lparr>module := Some \<lparr>live = [], next_ptr = 32840\<rparr>,
        st_sampleRate := 8000, st_channels := 2\<rparr>)"
    by (simp add: decode_def configured_decoder_def answer_def SAMPLE_RATE_def js_div_def
        malloc_def free_def stripADTS_def Let_def)
  have two: "[0..<2] = [0, 1]" and three: "[0..<3] = [0, 1, 2]"
    and zeros: "replicate 2 (F32 0) = [F32 0, F32 0]"
    by (simp_all add: numeral_2_eq_2 numeral_3_eq_3)
  have loop: "planar_loop [F32 0, F32 1, F32 2, F32 3, F32 4] 2 (Inexact 5 2) [0..<2] =
      Inr [ [F32 0, F32 2], [F32 1, F32 3] ]"
    by (simp add: two three zeros channel_samples_def new_Float32Array_def loop_indices_def
        load_def store_def)
  show ?thesis
    using dec loop by (simp add: decodePlanar_def)
qed

section \<open>The descriptor length\<close>

declare read_size.simps [simp del]

lemma read_size_encoding:
  assumes "\<forall>b \<in> set cont. uint b AND 0x80 \<noteq> 0" and "uint lst AND 0x80 = 0"
  shows "read_size (pre @ cont @ lst # rest) (length pre) sz =
     Inr (foldl size_step sz (cont @ [lst]), length pre + length cont + 1)"
  using assms(1)
proof (induction cont arbitrary: pre sz)
  case Nil
  show ?case
    using assms(2)
    by (subst read_size.simps) (simp add: byte_at_def size_step_def Let_def)
next
  case (Cons b cont)
  have more: "uint b AND 0x80 \<noteq> 0" using Cons.prems by simp
  have "read_size (pre @ (b # cont) @ lst # rest) (length pre) sz =
      read_size ((pre @ [b]) @ cont @ lst # rest) (length (pre @ [b])) (size_step sz b)"
    using more
    by (subst read_size.simps) (simp add: byte_at_def size_step_def Let_def)
  also have "\<dots> = Inr (foldl size_step (size_step sz b) (cont @ [lst]),
      length (pre @ [b]) + length cont + 1)"
    using Cons.prems by (intro Cons.IH) simp
  finally show ?case by simp
qed

lemma size_step_small:
  assumes "0 \<le> a" and "a < 2 ^ 21"
  shows "size_step a b = a * 128 + (uint b AND 0x7F)"
    and "0 \<le> size_step a b" and "size_step a b < 128 * (a + 1)"
proof -
  define low where "low = uint b AND 0x7F"
  have low: "low = take_bit 7 (uint b)"
    by (simp add: low_def take_bit_eq_mask mask_eq_exp_minus_1)
  have l0: "0 \<le> low" and l1: "low < 128"
    using take_bit_int_less_exp [of 7 "uint b"] by (simp_all add: low)
  have "- (2 ^ 31) \<le> a * 128" and "a * 128 < 2 ^ 31"
    using assms by simp_all
  then have shifted: "int32 (push_bit 7 a) = a * 128"
    unfolding int32_def push_bit_eq_mult by (simp add: signed_take_bit_int_eq_self)
  have "a * 128 OR low = take_bit 7 (uint b) + push_bit 7 a"
    using concat_bit_eq [of 7 "uint b" a]
    by (simp add: concat_bit_def low push_bit_eq_mult ac_simps)
  then have joined: "a * 128 OR low = a * 128 + low"
    by (simp add: low push_bit_eq_mult)
  have "- (2 ^ 31) \<le> a * 128 + low" and "a * 128 + low < 2 ^ 31"
    using assms l0 l1 by simp_all
  then have "int32 (a * 128 + low) = a * 128 + low"
    unfolding int32_def by (rule signed_take_bit_int_eq_self)
  then have eq: "size_step a b = a * 128 + low"
    by (simp add: size_step_def shifted joined low_def [symmetric])
  show "size_step a b = a * 128 + (uint b AND 0x7F)"
    using eq by (simp add: low_def)
  show "0 \<le> size_step a b" using assms l0 by (simp add: eq)
  show "size_step a b < 128 * (a + 1)" using l1 by (simp add: eq)
qed

lemma foldl_size_step_small:
  assumes "0 \<le> a" and "a < 128 ^ k" and "k + length enc \<le> 4"
  shows "foldl size_step a enc = foldl (\<lambda>a b. a * 128 + (uint b AND 0x7F)) a enc"
  using assms
proof (induction enc arbitrary: a k)
  case Nil
  show ?case by simp
next
  case (Cons b enc)
  have k3: "k \<le> 3" using Cons.prems(3) by simp
  then have "(128 :: int) ^ k \<le> 128 ^ 3" by (intro power_increasing) simp_all
  then have small: "a < 2 ^ 21" using Cons.prems(2) by simp
  note st = size_step_small [OF Cons.prems(1) small, of b]
  have "a + 1 \<le> 128 ^ k" using Cons.prems(2) by simp
  then have "128 * (a + 1) \<le> (128 :: int) ^ Suc k" by simp
  then have "size_step a b < 128 ^ Suc k" using st(3) by linarith
  then have "foldl size_step (size_step a b) enc =
      foldl (\<lambda>a b. a * 128 + (uint b AND 0x7F)) (size_step a b) enc"
    using st(2) Cons.prems(3) by (intro Cons.IH [where k = "Suc k"]) simp_all
  then show ?case by (simp add: st(1))
qed

text \<open>
  C5, as the code has it. For an encoding of one to four bytes, every byte but the last
  with its top bit set, the loop returns the low 7 bits of the bytes, one group after the
  other with the first byte highest, and stops behind the last byte. An encoding with more
  bytes is not refused: the loop goes on as long as the top bit is set and returns what it
  has collected in 32 bits, whatever the number of bytes.
\<close>

theorem read_size_decodes:
  assumes "\<forall>b \<in> set cont. uint b AND 0x80 \<noteq> 0" and "uint lst AND 0x80 = 0"
  shows "read_size (pre @ cont @ lst # rest) (length pre) 0 =
       Inr (foldl size_step 0 (cont @ [lst]), length pre + length cont + 1)
     \<and> (length (cont @ [lst]) \<le> 4 \<longrightarrow> foldl size_step 0 (cont @ [lst]) = concat7 (cont @ [lst]))"
proof (intro conjI impI)
  show "read_size (pre @ cont @ lst # rest) (length pre) 0 =
       Inr (foldl size_step 0 (cont @ [lst]), length pre + length cont + 1)"
    using assms by (rule read_size_encoding)
  assume "length (cont @ [lst]) \<le> 4"
  then show "foldl size_step 0 (cont @ [lst]) = concat7 (cont @ [lst])"
    unfolding concat7_def
    by (intro foldl_size_step_small [where k = 0]) simp_all
qed

theorem read_size_decodes_witness:
  "uint (0x81 :: u8) AND 0x80 \<noteq> 0
   \<and> uint (0x82 :: u8) AND 0x80 \<noteq> 0
   \<and> uint (0x83 :: u8) AND 0x80 \<noteq> 0
   \<and> uint (0x04 :: u8) AND 0x80 = 0
   \<and> length ([0x81, 0x82, 0x83] @ [0x04 :: u8]) \<le> 4
   \<and> read_size ([0x05] @ [0x81, 0x82, 0x83] @ 0x04 # [0xFF]) (length [0x05 :: u8]) 0 =
       Inr (2130308, 5)
   \<and> concat7 ([0x81, 0x82, 0x83] @ [0x04]) = 2130308"
proof -
  have a: "\<forall>b \<in> set [0x81, 0x82, 0x83 :: u8]. uint b AND 0x80 \<noteq> 0" by simp
  have b: "uint (0x04 :: u8) AND 0x80 = 0" by simp
  have c: "concat7 ([0x81, 0x82, 0x83] @ [0x04]) = 2130308" by (simp add: concat7_def)
  show ?thesis
    using a b c read_size_decodes [OF a b, of "[0x05]" "[0xFF]"] by simp
qed

text \<open>
  The claim as it is written fails for the five bytes \<open>80 80 80 80 05\<close>: the fifth byte
  is read and the loop returns the length 5 instead of refusing the encoding.
\<close>

theorem read_size_five_bytes_counterexample:
  "read_size [0x80, 0x80, 0x80, 0x80, 0x05] 0 0 = Inr (5, 5)"
  by (simp add: read_size.simps byte_at_def int32_def Let_def)

section \<open>parseADTS on a frame shorter than its header\<close>

text \<open>
  C6, as the code has it. Wherever \<open>parseADTS\<close> recognises a header (at least 7 bytes
  remain and the sync pattern is \<open>0xFFF\<close>) it returns the header record, whatever the
  frame length: \<open>headerSize\<close> is 7 without CRC and 9 with it, \<open>frameLength\<close> is the 13-bit
  field, and \<open>dataLength\<close> is their difference, negative when the frame length is below
  the header size. No error is reported.
\<close>

theorem parseADTS_dataLength:
  assumes "offset + 7 \<le> length data" and "syncword_at data offset = 0xFFF"
  shows "\<exists>h. parseADTS data offset = Some h
     \<and> headerSize h = (if byte_at data (offset + 1) AND 0x01 \<noteq> 0 then 7 else 9)
     \<and> frameLength h =
         push_bit 11 (byte_at data (offset + 3) AND 0x03)
           OR push_bit 3 (byte_at data (offset + 4))
           OR (drop_bit 5 (byte_at data (offset + 5)) AND 0x07)
     \<and> dataLength h = frameLength h - headerSize h
     \<and> (frameLength h < headerSize h \<longrightarrow> dataLength h < 0)"
  using assms by (simp add: parseADTS_def Let_def)

lemma parseADTS_example:
  "parseADTS [0xFF, 0xF1, 0x50, 0x80, 0x00, 0x1F, 0xFC] 0 =
     Some \<lparr>syncword = 0xFFF, profile = 2, profileName = ''AAC LC'', sampleRateIndex = 4,
           adts_sampleRate = Some 44100, channelConfig = 2, adts_channels = 2,
           frameLength = 0, headerSize = 7, protectionAbsent = 1, dataLength = - 7\<rparr>"
  by (simp add: parseADTS_def syncword_at_def byte_at_def element_def profiles_def
      sampleRates_def Let_def)

theorem parseADTS_dataLength_witness:
  "0 + 7 \<le> length [0xFF, 0xF1, 0x50, 0x80, 0x00, 0x1F, 0xFC :: u8]
   \<and> syncword_at [0xFF, 0xF1, 0x50, 0x80, 0x00, 0x1F, 0xFC] 0 = 0xFFF
   \<and> (\<exists>h. parseADTS [0xFF, 0xF1, 0x50, 0x80, 0x00, 0x1F, 0xFC] 0 = Some h
         \<and> headerSize h = 7 \<and> frameLength h = 0 \<and> dataLength h = - 7)"
proof -
  have a: "0 + 7 \<le> length [0xFF, 0xF1, 0x50, 0x80, 0x00, 0x1F, 0xFC :: u8]" by simp
  have b: "syncword_at [0xFF, 0xF1, 0x50, 0x80, 0x00, 0x1F, 0xFC] 0 = 0xFFF"
    by (simp add: syncword_at_def byte_at_def)
  show ?thesis
    using a b parseADTS_dataLength [OF a b] by (auto simp: byte_at_def)
qed

text \<open>
  The claim as it is written fails for the header \<open>FF F1 50 80 00 1F FC\<close>, the example of
  the specification: the frame length is 0, the header size 7, and the parser returns the
  header with \<open>dataLength = -7\<close>.
\<close>

theorem parseADTS_short_frame_counterexample:
  "parseADTS [0xFF, 0xF1, 0x50, 0x80, 0x00, 0x1F, 0xFC] 0 =
     Some \<lparr>syncword = 0xFFF, profile = 2, profileName = ''AAC LC'', sampleRateIndex = 4,
           adts_sampleRate = Some 44100, channelConfig = 2, adts_channels = 2,
           frameLength = 0, headerSize = 7, protectionAbsent = 1, dataLength = - 7\<rparr>
   \<and> (0 :: int) < 7"
  by (simp add: parseADTS_def syncword_at_def byte_at_def element_def profiles_def
      sampleRates_def Let_def)

section \<open>The configuration record for a codec string\<close>

text \<open>
  C7. For the codec string \<open>mp4a.40.2\<close>, 44100 Hz and 2 channels the record built from
  the codec string, which is also the record passed to \<open>configure\<close>, is \<open>[0x12, 0x10]\<close>:
  object type 2 in the top 5 bits, frequency index 4 (44100 Hz) in the next 4 and channel
  configuration 2 in the following 4. \<open>_extractASC\<close> builds the same record from an ADTS
  header with these values.
\<close>

theorem codec_mp4a_40_2_asc:
  "audioConfig_from_codec ''mp4a.40.2'' 44100 2 = Some [0x12, 0x10]
   \<and> configured_asc ''mp4a.40.2'' 44100 2 = Some [0x12, 0x10]
   \<and> asc_objectType [0x12, 0x10] = 2
   \<and> asc_frequencyIndex [0x12, 0x10] = 4
   \<and> sampleRates ! 4 = 44100
   \<and> asc_channelConfiguration [0x12, 0x10] = 2
   \<and> extractASC [0xFF, 0xF1, 0x50, 0x80, 0x00, 0x1F, 0xFC] = Inr [0x12, 0x10]"
  by (simp add: configured_asc_def audioConfig_from_codec_def finalASC_def parseInt_def
      is_space_def is_digit_def sampleRates_def int_of_number_def asc_objectType_def
      asc_frequencyIndex_def asc_channelConfiguration_def byte_at_def extractASC_def
      syncword_at_def Let_def)

lemma top_bit:
  fixes k :: int
  assumes "bit k 7"
  shows "drop_bit 7 (take_bit 8 k) = 1"
proof -
  have "drop_bit 7 (take_bit 8 k) = take_bit 1 (drop_bit 7 k)"
    by (simp add: drop_bit_take_bit)
  also have "\<dots> = of_bool (odd (drop_bit 7 k))"
    by (simp add: take_bit_Suc_from_most mod_2_eq_odd take_bit_eq_mod)
  also have "\<dots> = 1"
    using assms by (simp add: bit_iff_odd_drop_bit)
  finally show ?thesis .
qed

lemma final_byte:
  "drop_bit 7 (uint (word_of_int (128 OR push_bit 3 c) :: u8)) = 1"
proof -
  define k :: int where "k = 128 OR push_bit 3 c"
  have "bit k 7"
    by (simp add: k_def bit_or_iff)
  then have "drop_bit 7 (take_bit 8 k) = 1"
    by (rule top_bit)
  then have "drop_bit 7 (uint (word_of_int k :: u8)) = 1"
    by (simp only: uint_word_of_int_eq len_of_numeral_defs) simp
  then show ?thesis by (simp only: k_def)
qed

lemma configured_asc_mp4a_40_5:
  "configured_asc ''mp4a.40.5'' sample_rate channel_count =
     Some [0x13, word_of_int (128 OR push_bit 3 channel_count)]"
  by (simp add: configured_asc_def audioConfig_from_codec_def finalASC_def parseInt_def
      is_space_def is_digit_def int_of_number_def Let_def)

text \<open>
  C4, as the code has it. For the codec string \<open>mp4a.40.5\<close>, 44100 Hz and 2 channels the
  record passed to \<open>configure\<close> is the two bytes \<open>[0x13, 0x90]\<close>: object type 2 (AAC-LC),
  frequency index 7, which is 22050 Hz, half of 44100, and channel configuration 2. For
  every sample rate and channel count the record passed for \<open>mp4a.40.5\<close> has two bytes,
  object type 2 and the constant frequency index 7. The input rate is halved and looked
  up only for the four-byte record with object type 5 that is built from the codec string
  first (\<open>[0x2B, 0x94, 0x56, 0xE5]\<close> for 44100 Hz and 2 channels) and then replaced.
\<close>

theorem codec_mp4a_40_5_asc:
  "configured_asc ''mp4a.40.5'' 44100 2 = Some [0x13, 0x90]
   \<and> asc_objectType [0x13, 0x90] = 2
   \<and> asc_frequencyIndex [0x13, 0x90] = 7
   \<and> sampleRates ! 7 = 22050
   \<and> asc_channelConfiguration [0x13, 0x90] = 2
   \<and> audioConfig_from_codec ''mp4a.40.5'' 44100 2 = Some [0x2B, 0x94, 0x56, 0xE5]
   \<and> configured_asc ''mp4a.40.5'' sample_rate channel_count =
       Some [0x13, word_of_int (128 OR push_bit 3 channel_count)]
   \<and> asc_objectType [0x13, word_of_int (128 OR push_bit 3 channel_count)] = 2
   \<and> asc_frequencyIndex [0x13, word_of_int (128 OR push_bit 3 channel_count)] = 7"
proof -
  have "configured_asc ''mp4a.40.5'' 44100 2 = Some [0x13, 0x90]"
    by (simp add: configured_asc_mp4a_40_5)
  moreover have "asc_objectType [0x13, 0x90] = 2" and "asc_frequencyIndex [0x13, 0x90] = 7"
    and "sampleRates ! 7 = 22050" and "asc_channelConfiguration [0x13, 0x90] = 2"
    by (simp_all add: asc_objectType_def asc_frequencyIndex_def asc_channelConfiguration_def
        byte_at_def sampleRates_def)
  moreover have "audioConfig_from_codec ''mp4a.40.5'' 44100 2 = Some [0x2B, 0x94, 0x56, 0xE5]"
    by (simp add: audioConfig_from_codec_def parseInt_def is_space_def is_digit_def
        sampleRates_def int_of_number_def Let_def)
  moreover have "asc_objectType [0x13, word_of_int (128 OR push_bit 3 channel_count)] = 2"
    and "asc_frequencyIndex [0x13, word_of_int (128 OR push_bit 3 channel_count)] = 7"
    using final_byte [of channel_count]
    by (simp_all add: asc_objectType_def asc_frequencyIndex_def byte_at_def)
  ultimately show ?thesis
    using configured_asc_mp4a_40_5 [of sample_rate channel_count] by simp
qed

text \<open>
  The claim as it is written fails for \<open>mp4a.40.5\<close> at 48000 Hz: half of the input rate
  is 24000 Hz, index 6 of the table, and the record passed to \<open>configure\<close> has index 7;
  the record with the halved rate has four bytes and object type 5.
\<close>

theorem codec_mp4a_40_5_48000_counterexample:
  "configured_asc ''mp4a.40.5'' 48000 2 = Some [0x13, 0x90]
   \<and> asc_frequencyIndex [0x13, 0x90] = 7
   \<and> indexOf sampleRates (48000 div 2) = 6
   \<and> audioConfig_from_codec ''mp4a.40.5'' 48000 2 = Some [0x2B, 0x14, 0x56, 0xFD]
   \<and> asc_objectType [0x2B, 0x14, 0x56, 0xFD] = 5"
  by (simp add: configured_asc_def audioConfig_from_codec_def finalASC_def parseInt_def
      is_space_def is_digit_def sampleRates_def int_of_number_def asc_objectType_def
      asc_frequencyIndex_def byte_at_def Let_def)

end
